theory Spec2Isabelle
  imports Complex_Main "HOL-Library.AList"
begin

section \<open>Data model\<close>

text \<open>
  A NamedVector is the Python \<^verbatim>\<open>dict[str, Float]\<close> that \<^verbatim>\<open>jim.py\<close> passes between the
  transforms, the prior and the likelihood.  A Python dictionary keeps its keys in insertion
  order, so it is an association list; \<open>map_of\<close> looks a key up, \<open>AList.update\<close> is
  \<^verbatim>\<open>d[k] = v\<close> and \<open>AList.delete\<close> is \<^verbatim>\<open>d.pop(k)\<close> on a present key.  Scalars are real
  numbers.
\<close>

type_synonym NamedVector = "(string \<times> real) list"

datatype error = MissingParameterError | DomainError | IndexError | KeyError | TypeError

text \<open>
  The interface of a transform object as \<^verbatim>\<open>jim.py\<close> and the unit tests use it:
  \<^verbatim>\<open>name_mapping\<close> (input names, output names), \<^verbatim>\<open>transform\<close> and \<^verbatim>\<open>inverse\<close>, which
  return the new dictionary together with a log-Jacobian-determinant, and \<^verbatim>\<open>forward\<close> and
  \<^verbatim>\<open>backward\<close>, which return the new dictionary only.  Every call may raise.  The field
  for \<^verbatim>\<open>inverse\<close> is called \<open>inverse_tr\<close>.
\<close>

record Transform =
  name_mapping :: "string list \<times> string list"
  transform :: "NamedVector \<Rightarrow> error + NamedVector \<times> real"
  inverse_tr :: "NamedVector \<Rightarrow> error + NamedVector \<times> real"
  forward :: "NamedVector \<Rightarrow> error + NamedVector"
  backward :: "NamedVector \<Rightarrow> error + NamedVector"

text \<open>
  The external collaborators.  \<^verbatim>\<open>Prior.sample(key, n)\<close> returns a dictionary from each
  parameter name to an array of \<open>n\<close> values: \<^verbatim>\<open>Jim.sample\<close> maps \<^verbatim>\<open>transform.forward\<close> over
  it and stacks its \<^verbatim>\<open>values()\<close>.  \<^verbatim>\<open>LikelihoodBase.evaluate\<close> receives the data, which
  \<^verbatim>\<open>maximize_likelihood\<close> passes as \<^verbatim>\<open>None\<close>.  The evolutionary optimizer stands for
  construction with \<^verbatim>\<open>n_dim\<close>, \<^verbatim>\<open>optimize(objective, bounds, n_loops)\<close> and
  \<^verbatim>\<open>get_result()\<close>.
\<close>

record Prior =
  parameter_names :: "string list"
  n_dim :: nat
  log_prob :: "NamedVector \<Rightarrow> error + real"
  sample :: "nat \<Rightarrow> nat \<Rightarrow> (string \<times> real list) list"

record 'd LikelihoodBase =
  evaluate :: "NamedVector \<Rightarrow> 'd option \<Rightarrow> error + real"

type_synonym EvolutionaryOptimizer =
  "nat \<Rightarrow> (real list list \<Rightarrow> error + real list) \<Rightarrow> (real \<times> real) list \<Rightarrow> nat
     \<Rightarrow> error + real list \<times> real"

record 'd Jim =
  likelihood :: "'d LikelihoodBase"
  prior :: Prior
  sample_transforms :: "Transform list"
  likelihood_transforms :: "Transform list"
  parameter_names :: "string list"

section \<open>The transform module\<close>

text \<open>
  Modelled from the spec: \<^verbatim>\<open>Transform.propagate_name\<close> of the module
  \<^verbatim>\<open>jimgw.transforms\<close>, which is not among the sources.  Section 4.1: the transform's
  input names, wherever they occur, are replaced in their position by the output names, and
  all other names keep their position.  The i-th input name is paired with the i-th
  output name.
\<close>

definition propagate_name :: "Transform \<Rightarrow> string list \<Rightarrow> string list" where
  "propagate_name t x =
     map (\<lambda>n. case map_of (zip (fst (name_mapping t)) (snd (name_mapping t))) n of
                 None \<Rightarrow> n
               | Some m \<Rightarrow> m) x"

text \<open>\<^verbatim>\<open>dict(zip(keys, values))\<close>: \<^verbatim>\<open>zip\<close> stops at the shorter argument, and a repeated
  key keeps its first position and its last value.\<close>

definition dict_zip :: "string list \<Rightarrow> 'v list \<Rightarrow> (string \<times> 'v) list" where
  "dict_zip keys vals = fold (\<lambda>(k, v). AList.update k v) (zip keys vals) []"

text \<open>
  Modelled from the spec: the contract of \<^verbatim>\<open>forward\<close> and \<^verbatim>\<open>inverse\<close> in section 4.1
  (the classes of \<^verbatim>\<open>jimgw.transforms\<close> are not among the sources).  A call with a required
  name missing signals \<^verbatim>\<open>MissingParameterError\<close>; otherwise the consumed names are
  replaced by the produced names and every other name passes through.
\<close>

definition apply_names ::
  "string list \<Rightarrow> string list \<Rightarrow> (real list \<Rightarrow> error + real list \<times> real)
     \<Rightarrow> NamedVector \<Rightarrow> error + NamedVector \<times> real" where
  "apply_names ins outs f x =
     (if \<not> list_all (\<lambda>n. map_of x n \<noteq> None) ins then Inl MissingParameterError
      else case f (map (\<lambda>n. the (map_of x n)) ins) of
             Inl e \<Rightarrow> Inl e
           | Inr (ys, j) \<Rightarrow>
               Inr (fold (\<lambda>(k, v). AList.update k v) (zip outs ys) (fold AList.delete ins x), j))"

definition drop_jacobian :: "error + NamedVector \<times> real \<Rightarrow> error + NamedVector" where
  "drop_jacobian r = (case r of Inl e \<Rightarrow> Inl e | Inr (y, j) \<Rightarrow> Inr y)"

definition make_transform ::
  "string list \<times> string list \<Rightarrow> (real list \<Rightarrow> error + real list \<times> real)
     \<Rightarrow> (real list \<Rightarrow> error + real list \<times> real) \<Rightarrow> Transform" where
  "make_transform nm f g =
     \<lparr> name_mapping = nm,
       transform = apply_names (fst nm) (snd nm) f,
       inverse_tr = apply_names (snd nm) (fst nm) g,
       forward = (\<lambda>x. drop_jacobian (apply_names (fst nm) (snd nm) f x)),
       backward = (\<lambda>y. drop_jacobian (apply_names (snd nm) (fst nm) g y)) \<rparr>"

text \<open>
  Modelled from the spec: two entries of the elementary catalogue of section 4.2, applied
  to every name of the mapping as \<^verbatim>\<open>test_scale_transform\<close> and
  \<^verbatim>\<open>test_offset_transform\<close> use them.  Scale(s): \<open>y = s * x\<close> with \<open>ln \<bar>s\<bar>\<close> per name, and
  scaling by zero is a \<^verbatim>\<open>DomainError\<close>.  Offset(c): \<open>y = x + c\<close> with log-Jacobian 0.
\<close>

definition ScaleTransform :: "string list \<times> string list \<Rightarrow> real \<Rightarrow> Transform" where
  "ScaleTransform nm s =
     make_transform nm
       (\<lambda>xs. if s = 0 then Inl DomainError
             else Inr (map (\<lambda>x. s * x) xs, real (length xs) * ln \<bar>s\<bar>))
       (\<lambda>ys. if s = 0 then Inl DomainError
             else Inr (map (\<lambda>y. y / s) ys, - (real (length ys) * ln \<bar>s\<bar>)))"

definition OffsetTransform :: "string list \<times> string list \<Rightarrow> real \<Rightarrow> Transform" where
  "OffsetTransform nm c =
     make_transform nm
       (\<lambda>xs. Inr (map (\<lambda>x. x + c) xs, 0))
       (\<lambda>ys. Inr (map (\<lambda>y. y - c) ys, 0))"

text \<open>
  Modelled from the spec: the entry SingleSidedUnbound(lower = L) of the catalogue of section
  4.2, as \<^verbatim>\<open>test_single_sided_unbound_transform\<close> uses it: \<open>y = ln (x - L)\<close> with
  log-Jacobian \<open>- ln (x - L)\<close>, an input that is not above \<open>L\<close> being a \<^verbatim>\<open>DomainError\<close>;
  the inverse is \<open>x = exp y + L\<close> with log-Jacobian \<open>y\<close>.
\<close>

definition SingleSidedUnboundTransform :: "string list \<times> string list \<Rightarrow> real \<Rightarrow> Transform" where
  "SingleSidedUnboundTransform nm lower =
     make_transform nm
       (\<lambda>xs. if list_all (\<lambda>x. lower < x) xs
             then Inr (map (\<lambda>x. ln (x - lower)) xs, sum_list (map (\<lambda>x. - ln (x - lower)) xs))
             else Inl DomainError)
       (\<lambda>ys. Inr (map (\<lambda>y. exp y + lower) ys, sum_list ys))"

section \<open>Operations of \<^verbatim>\<open>jim.py\<close>\<close>

text \<open>\<^verbatim>\<open>Jim.__init__\<close>: the loop \<^verbatim>\<open>for transform in sample_transforms\<close> that updates
  \<^verbatim>\<open>self.parameter_names\<close>, and the constructor without the sampler it builds.\<close>

fun propagate_loop :: "Transform list \<Rightarrow> string list \<Rightarrow> string list" where
  "propagate_loop [] names = names"
| "propagate_loop (t # ts) names = propagate_loop ts (propagate_name t names)"

definition Jim_init ::
  "'d LikelihoodBase \<Rightarrow> Prior \<Rightarrow> Transform list \<Rightarrow> Transform list \<Rightarrow> 'd Jim" where
  "Jim_init lk pr sts lts =
     \<lparr> likelihood = lk, prior = pr, sample_transforms = sts, likelihood_transforms = lts,
       parameter_names =
         (if length sts = 0 then Prior.parameter_names pr
          else propagate_loop sts (Prior.parameter_names pr)) \<rparr>"

text \<open>\<^verbatim>\<open>Jim.add_name\<close>: \<^verbatim>\<open>dict(zip(self.parameter_names, x))\<close>.\<close>

definition add_name :: "'d Jim \<Rightarrow> 'v list \<Rightarrow> (string \<times> 'v) list" where
  "add_name J x = dict_zip (Jim.parameter_names J) x"

text \<open>The first loop of \<^verbatim>\<open>Jim.posterior\<close>: \<^verbatim>\<open>for transform in self.sample_transforms\<close>,
  with the running \<^verbatim>\<open>transform_jacobian\<close>.\<close>

fun inverse_loop :: "Transform list \<Rightarrow> NamedVector \<Rightarrow> real \<Rightarrow> error + NamedVector \<times> real" where
  "inverse_loop [] named_params transform_jacobian = Inr (named_params, transform_jacobian)"
| "inverse_loop (t # ts) named_params transform_jacobian =
     (case inverse_tr t named_params of
        Inl e \<Rightarrow> Inl e
      | Inr (named_params', jacobian) \<Rightarrow>
          inverse_loop ts named_params' (transform_jacobian + jacobian))"

text \<open>The second loop of \<^verbatim>\<open>Jim.posterior\<close>: \<^verbatim>\<open>for transform in self.likelihood_transforms\<close>.\<close>

fun forward_loop :: "Transform list \<Rightarrow> NamedVector \<Rightarrow> error + NamedVector" where
  "forward_loop [] named_params = Inr named_params"
| "forward_loop (t # ts) named_params =
     (case forward t named_params of
        Inl e \<Rightarrow> Inl e
      | Inr named_params' \<Rightarrow> forward_loop ts named_params')"

definition posterior :: "'d Jim \<Rightarrow> real list \<Rightarrow> 'd option \<Rightarrow> error + real" where
  "posterior J params data =
     (case inverse_loop (sample_transforms J) (add_name J params) 0 of
        Inl e \<Rightarrow> Inl e
      | Inr (named_params, transform_jacobian) \<Rightarrow>
          (case log_prob (prior J) named_params of
             Inl e \<Rightarrow> Inl e
           | Inr lp \<Rightarrow>
               (case forward_loop (likelihood_transforms J) named_params of
                  Inl e \<Rightarrow> Inl e
                | Inr named_params' \<Rightarrow>
                    (case evaluate (likelihood J) named_params' data of
                       Inl e \<Rightarrow> Inl e
                     | Inr l \<Rightarrow> Inr (l + (lp + transform_jacobian))))))"

text \<open>
  \<^verbatim>\<open>Jim.posterior\<close> called with a dictionary in the place of the array, as the first call
  of \<^verbatim>\<open>maximize_likelihood\<close> does.  \<^verbatim>\<open>add_name\<close> zips the parameter names with what
  iterating the dictionary yields, its keys.  When that dictionary is empty the call is the
  one on the empty array; otherwise its values are strings and not numbers, and the
  transform, prior and likelihood that receive it raise.
\<close>

definition posterior_dict :: "'d Jim \<Rightarrow> (string \<times> 'v) list \<Rightarrow> 'd option \<Rightarrow> error + real" where
  "posterior_dict J x data =
     (if add_name J (map fst x) = [] then posterior J [] data else Inl TypeError)"

text \<open>
  \<^verbatim>\<open>Jim.maximize_likelihood\<close>.  \<^verbatim>\<open>jax.vmap\<close> applies the function to every row of a
  batch of arrays, and to a dictionary of arrays it hands a dictionary with the same keys.
  \<^verbatim>\<open>initial_guess\<close> is what \<^verbatim>\<open>self.prior.sample\<close> returns, and the call on it comes
  before the optimizer is built.
\<close>

fun vmap :: "('a \<Rightarrow> error + 'b) \<Rightarrow> 'a list \<Rightarrow> error + 'b list" where
  "vmap f [] = Inr []"
| "vmap f (x # xs) =
     (case f x of
        Inl e \<Rightarrow> Inl e
      | Inr y \<Rightarrow> (case vmap f xs of Inl e \<Rightarrow> Inl e | Inr ys \<Rightarrow> Inr (y # ys)))"

definition negative_posterior :: "'d Jim \<Rightarrow> real list \<Rightarrow> error + real" where
  "negative_posterior J x = (case posterior J x None of Inl e \<Rightarrow> Inl e | Inr v \<Rightarrow> Inr (- v))"

definition maximize_likelihood ::
  "'d Jim \<Rightarrow> EvolutionaryOptimizer \<Rightarrow> (real \<times> real) list \<Rightarrow> nat \<Rightarrow> nat \<Rightarrow> nat
     \<Rightarrow> error + real list" where
  "maximize_likelihood J optimizer bounds set_nwalkers n_loops seed =
     (let initial_guess = sample (prior J) seed set_nwalkers in
      case posterior_dict J initial_guess None of
        Inl e \<Rightarrow> Inl e
      | Inr _ \<Rightarrow>
          (case optimizer (n_dim (prior J)) (vmap (negative_posterior J)) bounds n_loops of
             Inl e \<Rightarrow> Inl e
           | Inr result \<Rightarrow> Inr (fst result)))"

text \<open>\<^verbatim>\<open>Jim.get_samples\<close>, from the reshaped \<^verbatim>\<open>chains\<close> (one row per sample) on: the loop
  over \<^verbatim>\<open>self.sample_transforms\<close> calling \<^verbatim>\<open>backward\<close>, and the collection of the
  values per key.\<close>

fun backward_loop :: "Transform list \<Rightarrow> NamedVector \<Rightarrow> error + NamedVector" where
  "backward_loop [] named_sample = Inr named_sample"
| "backward_loop (t # ts) named_sample =
     (case backward t named_sample of
        Inl e \<Rightarrow> Inl e
      | Inr named_sample' \<Rightarrow> backward_loop ts named_sample')"

fun append_items ::
  "NamedVector \<Rightarrow> (string \<times> real list) list \<Rightarrow> error + (string \<times> real list) list" where
  "append_items [] transformed_chain = Inr transformed_chain"
| "append_items ((key, v) # items) transformed_chain =
     (case map_of transformed_chain key of
        None \<Rightarrow> Inl KeyError
      | Some vs \<Rightarrow> append_items items (AList.update key (vs @ [v]) transformed_chain))"

fun chain_loop ::
  "'d Jim \<Rightarrow> real list list \<Rightarrow> (string \<times> real list) list
     \<Rightarrow> error + (string \<times> real list) list" where
  "chain_loop J [] transformed_chain = Inr transformed_chain"
| "chain_loop J (s # rest) transformed_chain =
     (case backward_loop (sample_transforms J) (add_name J s) of
        Inl e \<Rightarrow> Inl e
      | Inr named_sample \<Rightarrow>
          (case append_items named_sample transformed_chain of
             Inl e \<Rightarrow> Inl e
           | Inr transformed_chain' \<Rightarrow> chain_loop J rest transformed_chain'))"

definition get_samples :: "'d Jim \<Rightarrow> real list list \<Rightarrow> error + (string \<times> real list) list" where
  "get_samples J chns =
     (if sample_transforms J \<noteq> [] then
        (case chns of
           [] \<Rightarrow> Inl IndexError
         | c0 # rest \<Rightarrow>
             (case backward_loop (sample_transforms J) (add_name J c0) of
                Inl e \<Rightarrow> Inl e
              | Inr named_sample \<Rightarrow>
                  chain_loop J rest
                    (fold (\<lambda>(key, v). AList.update key [v]) named_sample [])))
      else Inr (add_name J chns))"

section \<open>Specification functions and example objects\<close>

text \<open>The contributions that the first loop of \<^verbatim>\<open>Jim.posterior\<close> receives, one per sample
  transform, in the order in which the loop calls \<^verbatim>\<open>inverse\<close>.\<close>

fun inverse_jacobians :: "Transform list \<Rightarrow> NamedVector \<Rightarrow> error + NamedVector \<times> real list" where
  "inverse_jacobians [] x = Inr (x, [])"
| "inverse_jacobians (t # ts) x =
     (case inverse_tr t x of
        Inl e \<Rightarrow> Inl e
      | Inr (x', j) \<Rightarrow>
          (case inverse_jacobians ts x' of
             Inl e \<Rightarrow> Inl e
           | Inr (y, js) \<Rightarrow> Inr (y, j # js)))"

text \<open>A prior over \<^verbatim>\<open>a\<close> and \<^verbatim>\<open>b\<close> and a likelihood, both accepting any dictionary.\<close>

definition example_prior :: Prior where
  "example_prior =
     \<lparr> Prior.parameter_names = [''a'', ''b''], n_dim = 2,
       log_prob = (\<lambda>x. Inr (- sum_list (map snd x))),
       sample = (\<lambda>seed n. [(''a'', replicate n 3), (''b'', replicate n 4)]) \<rparr>"

definition example_likelihood :: "unit LikelihoodBase" where
  "example_likelihood = \<lparr> evaluate = (\<lambda>x d. Inr (sum_list (map snd x))) \<rparr>"

text \<open>Two sample transforms on different names, and one likelihood transform.\<close>

definition example_jim :: "unit Jim" where
  "example_jim =
     Jim_init example_likelihood example_prior
       [ScaleTransform ([''a''], [''a_scaled'']) 2, OffsetTransform ([''b''], [''b_offset'']) 1]
       [ScaleTransform ([''b''], [''b_tripled'']) 3]"

text \<open>The same object whose likelihood transform reports another log-Jacobian.\<close>

definition example_jim_other_jacobian :: "unit Jim" where
  "example_jim_other_jacobian =
     example_jim \<lparr> likelihood_transforms :=
       [(ScaleTransform ([''b''], [''b_tripled'']) 3) \<lparr> transform := (\<lambda>x. Inr (x, 42)) \<rparr>] \<rparr>"

text \<open>A chained pipeline: \<^verbatim>\<open>a\<close> is scaled into \<^verbatim>\<open>b\<close>, and \<^verbatim>\<open>b\<close> is offset into \<^verbatim>\<open>c\<close>.\<close>

definition chain_jim :: "unit Jim" where
  "chain_jim =
     Jim_init example_likelihood (example_prior \<lparr> Prior.parameter_names := [''a''], n_dim := 1 \<rparr>)
       [ScaleTransform ([''a''], [''b'']) 2, OffsetTransform ([''b''], [''c'']) 1] []"

text \<open>A pipeline of two transforms that keep the name \<^verbatim>\<open>x\<close>.\<close>

definition inplace_jim :: "unit Jim" where
  "inplace_jim =
     Jim_init example_likelihood (example_prior \<lparr> Prior.parameter_names := [''x''], n_dim := 1 \<rparr>)
       [ScaleTransform ([''x''], [''x'']) 2, OffsetTransform ([''x''], [''x'']) 1] []"

text \<open>An offset followed by a logarithm, both keeping the name \<^verbatim>\<open>x\<close>.\<close>

definition offset_log_jim :: "unit Jim" where
  "offset_log_jim =
     Jim_init example_likelihood (example_prior \<lparr> Prior.parameter_names := [''x''], n_dim := 1 \<rparr>)
       [OffsetTransform ([''x''], [''x'']) 1, SingleSidedUnboundTransform ([''x''], [''x'']) 0] []"

text \<open>No sample transform, and a likelihood transform that consumes a name, \<^verbatim>\<open>c\<close>, which
  the prior does not have.\<close>

definition misassembled_jim :: "unit Jim" where
  "misassembled_jim =
     Jim_init example_likelihood example_prior [] [ScaleTransform ([''c''], [''d'']) 2]"


text \<open>An optimizer that compares the objective at the two corners of the bounds.\<close>

definition corner_optimizer :: EvolutionaryOptimizer where
  "corner_optimizer n objective bounds n_loops =
     (case objective [map fst bounds, map snd bounds] of
        Inl e \<Rightarrow> Inl e
      | Inr vs \<Rightarrow>
          (if vs ! 0 \<le> vs ! 1 then Inr (map fst bounds, vs ! 0)
           else Inr (map snd bounds, vs ! 1)))"

lemmas example_defs = example_prior_def example_likelihood_def example_jim_def chain_jim_def
  inplace_jim_def offset_log_jim_def misassembled_jim_def Jim_init_def propagate_name_def add_name_def dict_zip_def
  ScaleTransform_def OffsetTransform_def SingleSidedUnboundTransform_def make_transform_def
  apply_names_def drop_jacobian_def

section \<open>The loops of \<^verbatim>\<open>Jim.posterior\<close>\<close>

lemma inverse_loop_jacobians:
  "inverse_loop ts x a =
     (case inverse_jacobians ts x of Inl e \<Rightarrow> Inl e | Inr (y, js) \<Rightarrow> Inr (y, a + sum_list js))"
proof (induction ts arbitrary: x a)
  case Nil
  show ?case by simp
next
  case (Cons t ts)
  show ?case
    by (simp add: Cons.IH add.assoc split: sum.splits prod.splits)
qed

text \<open>The transform at the end of the list is the one whose inverse is applied last.\<close>

lemma inverse_loop_append:
  "inverse_loop (ts @ [t]) x a =
     (case inverse_loop ts x a of
        Inl e \<Rightarrow> Inl e
      | Inr (y, j) \<Rightarrow> (case inverse_tr t y of Inl e \<Rightarrow> Inl e | Inr (z, k) \<Rightarrow> Inr (z, j + k)))"
  by (induction ts arbitrary: x a) (simp_all split: sum.splits prod.splits)

lemma inverse_loop_error_at:
  "inverse_loop ts x a = Inr (y, j) \<Longrightarrow> inverse_tr t y = Inl e
     \<Longrightarrow> inverse_loop (ts @ t # us) x a = Inl e"
  by (induction ts arbitrary: x a) (auto split: sum.splits prod.splits)

lemma forward_loop_cong:
  "map forward ts = map forward ts' \<Longrightarrow> forward_loop ts x = forward_loop ts' x"
proof (induction ts arbitrary: ts' x)
  case Nil
  then show ?case by simp
next
  case (Cons t ts)
  then obtain t' us where ts': "ts' = t' # us" by (cases ts') auto
  with Cons.prems have "forward t = forward t'" "map forward ts = map forward us" by auto
  with Cons.IH ts' show ?case by (simp split: sum.splits)
qed

lemma posterior_unfold:
  assumes "inverse_loop (sample_transforms J) (add_name J params) 0 = Inr (x, tj)"
    and "log_prob (prior J) x = Inr lp"
    and "forward_loop (likelihood_transforms J) x = Inr x'"
    and "evaluate (likelihood J) x' data = Inr l"
  shows "posterior J params data = Inr (l + (lp + tj))"
  using assms by (simp add: posterior_def)



section \<open>Order of the inverse pass\<close>

text \<open>
  Claim C1.  Reconstructing original-space parameters from transformed ones, as
  \<^verbatim>\<open>Jim.posterior\<close> and \<^verbatim>\<open>Jim.get_samples\<close> do, should apply the inverses last transform
  first.  Both loops iterate \<^verbatim>\<open>self.sample_transforms\<close> first transform first.  The
  constructor propagates the names through the list in its order, so the parameter of the
  chained pipeline (scale \<^verbatim>\<open>a\<close> into \<^verbatim>\<open>b\<close>, offset \<^verbatim>\<open>b\<close> into \<^verbatim>\<open>c\<close>) is \<^verbatim>\<open>c\<close>, and the
  forward pass takes \<^verbatim>\<open>a = 1\<close> to \<^verbatim>\<open>c = 3\<close>.  On \<^verbatim>\<open>c = 3\<close> the loops call the inverse of the
  scaling first, which has no \<^verbatim>\<open>b\<close> to consume; the inverses taken last first return
  \<^verbatim>\<open>a = 1\<close>.  With two transforms that keep the name \<^verbatim>\<open>x\<close> both orders return a value, and
  the loops return \<^verbatim>\<open>x = 1/2\<close> where the forward pass maps \<^verbatim>\<open>x = 1\<close> to \<^verbatim>\<open>3\<close>.
\<close>

theorem inverse_pass_runs_first_to_last:
  "Jim.parameter_names chain_jim = [''c'']
   \<and> forward_loop (sample_transforms chain_jim) [(''a'', 1)] = Inr [(''c'', 3)]
   \<and> inverse_loop (sample_transforms chain_jim) (add_name chain_jim [3]) 0
       = Inl MissingParameterError
   \<and> posterior chain_jim [3] None = Inl MissingParameterError
   \<and> get_samples chain_jim [[3]] = Inl MissingParameterError
   \<and> inverse_loop (rev (sample_transforms chain_jim)) (add_name chain_jim [3]) 0
       = Inr ([(''a'', 1)], - ln 2)
   \<and> forward_loop (sample_transforms inplace_jim) [(''x'', 1)] = Inr [(''x'', 3)]
   \<and> inverse_loop (sample_transforms inplace_jim) (add_name inplace_jim [3]) 0
       = Inr ([(''x'', 1 / 2)], - ln 2)
   \<and> get_samples inplace_jim [[3]] = Inr [(''x'', [1 / 2])]
   \<and> inverse_loop (rev (sample_transforms inplace_jim)) (add_name inplace_jim [3]) 0
       = Inr ([(''x'', 1)], - ln 2)"
  by (simp add: example_defs posterior_def get_samples_def)

section \<open>Additivity of the log-Jacobians\<close>

text \<open>
  Claim C2.  For a pipeline of \<open>T1\<close> then \<open>T2\<close> the composed log-Jacobian should be the sum
  of the two transforms' values at the points that belong to them: going back from a sampled
  point, the inverse of \<open>T2\<close> at that point and the inverse of \<open>T1\<close> at what \<open>T2\<close>
  returned.  \<^verbatim>\<open>Jim.posterior\<close> does add up what the inverses report, but it calls them
  first transform first, so \<open>T1\<close> is evaluated at the sampled point and \<open>T2\<close> at what
  \<open>T1\<close> returned.  For the offset by 1 followed by the logarithm, both on \<^verbatim>\<open>x\<close>, the
  forward pass takes \<^verbatim>\<open>x = 0\<close> to \<^verbatim>\<open>1\<close> and then to \<^verbatim>\<open>0\<close>, reporting 0 and 0; at the sampled
  point 0 the inverses taken last first report 0 and 0, while the loop of
  \<^verbatim>\<open>Jim.posterior\<close> reports 0 and \<open>- 1\<close>, and the posterior carries \<open>- 1\<close>.
\<close>

theorem log_jacobians_summed_at_first_to_last_points:
  "Jim.parameter_names offset_log_jim = [''x'']
   \<and> transform (OffsetTransform ([''x''], [''x'']) 1) [(''x'', 0)] = Inr ([(''x'', 1)], 0)
   \<and> transform (SingleSidedUnboundTransform ([''x''], [''x'']) 0) [(''x'', 1)]
       = Inr ([(''x'', 0)], 0)
   \<and> forward_loop (sample_transforms offset_log_jim) [(''x'', 0)] = Inr [(''x'', 0)]
   \<and> inverse_jacobians (rev (sample_transforms offset_log_jim)) (add_name offset_log_jim [0])
       = Inr ([(''x'', 0)], [0, 0])
   \<and> inverse_jacobians (sample_transforms offset_log_jim) (add_name offset_log_jim [0])
       = Inr ([(''x'', exp (- 1))], [0, - 1])
   \<and> inverse_loop (sample_transforms offset_log_jim) (add_name offset_log_jim [0]) 0
       = Inr ([(''x'', exp (- 1))], - 1)
   \<and> posterior offset_log_jim [0] None = Inr (exp (- 1) + (- exp (- 1) + - 1))"
  by (simp add: example_defs posterior_def)

section \<open>Name propagation\<close>



section \<open>Missing names\<close>

lemma apply_names_missing:
  "\<not> list_all (\<lambda>n. map_of x n \<noteq> None) ins \<Longrightarrow> apply_names ins outs f x = Inl MissingParameterError"
  by (simp add: apply_names_def)

lemma make_transform_missing_input:
  assumes "\<not> list_all (\<lambda>n. map_of x n \<noteq> None) (fst nm)"
  shows "transform (make_transform nm f g) x = Inl MissingParameterError"
    and "forward (make_transform nm f g) x = Inl MissingParameterError"
  using apply_names_missing [OF assms, of "snd nm" f]
  by (simp_all add: make_transform_def drop_jacobian_def)

lemma make_transform_missing_output:
  assumes "\<not> list_all (\<lambda>n. map_of y n \<noteq> None) (snd nm)"
  shows "inverse_tr (make_transform nm f g) y = Inl MissingParameterError"
    and "backward (make_transform nm f g) y = Inl MissingParameterError"
  using apply_names_missing [OF assms, of "fst nm" g]
  by (simp_all add: make_transform_def drop_jacobian_def)

lemma forward_loop_error_at:
  "forward_loop ts x = Inr y \<Longrightarrow> forward t y = Inl e \<Longrightarrow> forward_loop (ts @ t # us) x = Inl e"
  by (induction ts arbitrary: x) (auto split: sum.splits)

lemma backward_loop_error_at:
  "backward_loop ts x = Inr y \<Longrightarrow> backward t y = Inl e
     \<Longrightarrow> backward_loop (ts @ t # us) x = Inl e"
  by (induction ts arbitrary: x) (auto split: sum.splits)

text \<open>
  Claim C8.  A transform called forward or backward on a dictionary that lacks one of the
  names it consumes signals \<^verbatim>\<open>MissingParameterError\<close> and returns no dictionary.  The
  operations of \<^verbatim>\<open>Jim\<close> that call transforms recover from nothing: when the dictionary
  that reaches a sample transform in \<^verbatim>\<open>Jim.posterior\<close>, a likelihood transform in
  \<^verbatim>\<open>Jim.posterior\<close>, or a sample transform in \<^verbatim>\<open>Jim.get_samples\<close> lacks a name that the
  transform consumes, the error is the result of the operation.
\<close>

theorem missing_parameter_surfaces:
  "(\<not> list_all (\<lambda>n. map_of x n \<noteq> None) (fst nm) \<longrightarrow>
       transform (make_transform nm f g) x = Inl MissingParameterError
     \<and> forward (make_transform nm f g) x = Inl MissingParameterError)
   \<and> (\<not> list_all (\<lambda>n. map_of x n \<noteq> None) (snd nm) \<longrightarrow>
       inverse_tr (make_transform nm f g) x = Inl MissingParameterError
     \<and> backward (make_transform nm f g) x = Inl MissingParameterError)
   \<and> (sample_transforms J = ts @ make_transform nm f g # us
       \<and> inverse_loop ts (add_name J params) 0 = Inr (y, j)
       \<and> \<not> list_all (\<lambda>n. map_of y n \<noteq> None) (snd nm)
      \<longrightarrow> posterior J params data = Inl MissingParameterError)
   \<and> (inverse_loop (sample_transforms J) (add_name J params) 0 = Inr (y, j)
       \<and> log_prob (prior J) y = Inr lp
       \<and> likelihood_transforms J = ts @ make_transform nm f g # us
       \<and> forward_loop ts y = Inr z
       \<and> \<not> list_all (\<lambda>n. map_of z n \<noteq> None) (fst nm)
      \<longrightarrow> posterior J params data = Inl MissingParameterError)
   \<and> (sample_transforms J = ts @ make_transform nm f g # us
       \<and> backward_loop ts (add_name J row) = Inr y
       \<and> \<not> list_all (\<lambda>n. map_of y n \<noteq> None) (snd nm)
      \<longrightarrow> get_samples J (row # rest) = Inl MissingParameterError)"
proof (intro conjI impI)
  assume "\<not> list_all (\<lambda>n. map_of x n \<noteq> None) (fst nm)"
  then show "transform (make_transform nm f g) x = Inl MissingParameterError"
    and "forward (make_transform nm f g) x = Inl MissingParameterError"
    by (rule make_transform_missing_input)+
next
  assume "\<not> list_all (\<lambda>n. map_of x n \<noteq> None) (snd nm)"
  then show "inverse_tr (make_transform nm f g) x = Inl MissingParameterError"
    and "backward (make_transform nm f g) x = Inl MissingParameterError"
    by (rule make_transform_missing_output)+
next
  assume a: "sample_transforms J = ts @ make_transform nm f g # us
       \<and> inverse_loop ts (add_name J params) 0 = Inr (y, j)
       \<and> \<not> list_all (\<lambda>n. map_of y n \<noteq> None) (snd nm)"
  then have "inverse_tr (make_transform nm f g) y = Inl MissingParameterError"
    by (simp add: make_transform_missing_output)
  with a have "inverse_loop (sample_transforms J) (add_name J params) 0
      = Inl MissingParameterError"
    by (simp add: inverse_loop_error_at)
  then show "posterior J params data = Inl MissingParameterError"
    by (simp add: posterior_def)
next
  assume a: "inverse_loop (sample_transforms J) (add_name J params) 0 = Inr (y, j)
       \<and> log_prob (prior J) y = Inr lp
       \<and> likelihood_transforms J = ts @ make_transform nm f g # us
       \<and> forward_loop ts y = Inr z
       \<and> \<not> list_all (\<lambda>n. map_of z n \<noteq> None) (fst nm)"
  then have "forward (make_transform nm f g) z = Inl MissingParameterError"
    by (simp add: make_transform_missing_input)
  with a have "forward_loop (likelihood_transforms J) y = Inl MissingParameterError"
    by (simp add: forward_loop_error_at)
  with a show "posterior J params data = Inl MissingParameterError"
    by (simp add: posterior_def)
next
  assume a: "sample_transforms J = ts @ make_transform nm f g # us
       \<and> backward_loop ts (add_name J row) = Inr y
       \<and> \<not> list_all (\<lambda>n. map_of y n \<noteq> None) (snd nm)"
  then have "backward (make_transform nm f g) y = Inl MissingParameterError"
    by (simp add: make_transform_missing_output)
  with a have "backward_loop (sample_transforms J) (add_name J row) = Inl MissingParameterError"
    by (simp add: backward_loop_error_at)
  with a show "get_samples J (row # rest) = Inl MissingParameterError"
    by (simp add: get_samples_def)
qed

text \<open>
  The hypotheses at concrete inputs.  A scaling of \<^verbatim>\<open>c\<close> called forward on a dictionary of
  \<^verbatim>\<open>a\<close> and \<^verbatim>\<open>b\<close>, and a scaling of \<^verbatim>\<open>a\<close> into \<^verbatim>\<open>b\<close> called backward on a dictionary of
  \<^verbatim>\<open>c\<close>; the chained pipeline at the sampled point \<^verbatim>\<open>c = 3\<close>, in \<^verbatim>\<open>Jim.posterior\<close> and in
  \<^verbatim>\<open>Jim.get_samples\<close>; and a likelihood transform that consumes \<^verbatim>\<open>c\<close> under a prior over
  \<^verbatim>\<open>a\<close> and \<^verbatim>\<open>b\<close>, at the full array \<^verbatim>\<open>[6, 5]\<close>.
\<close>

theorem missing_parameter_surfaces_witness:
  "\<not> list_all (\<lambda>n. map_of [(''a'', 6::real), (''b'', 5)] n \<noteq> None) [''c'']
   \<and> transform (ScaleTransform ([''c''], [''d'']) 2) [(''a'', 6), (''b'', 5)]
       = Inl MissingParameterError
   \<and> forward (ScaleTransform ([''c''], [''d'']) 2) [(''a'', 6), (''b'', 5)]
       = Inl MissingParameterError
   \<and> \<not> list_all (\<lambda>n. map_of [(''c'', 3::real)] n \<noteq> None) [''b'']
   \<and> inverse_tr (ScaleTransform ([''a''], [''b'']) 2) [(''c'', 3)] = Inl MissingParameterError
   \<and> backward (ScaleTransform ([''a''], [''b'']) 2) [(''c'', 3)] = Inl MissingParameterError
   \<and> sample_transforms chain_jim
       = [] @ ScaleTransform ([''a''], [''b'']) 2 # [OffsetTransform ([''b''], [''c'']) 1]
   \<and> inverse_loop [] (add_name chain_jim [3]) 0 = Inr ([(''c'', 3)], 0)
   \<and> posterior chain_jim [3] None = Inl MissingParameterError
   \<and> backward_loop [] (add_name chain_jim [3]) = Inr [(''c'', 3)]
   \<and> get_samples chain_jim ([3] # []) = Inl MissingParameterError
   \<and> inverse_loop (sample_transforms misassembled_jim) (add_name misassembled_jim [6, 5]) 0
       = Inr ([(''a'', 6), (''b'', 5)], 0)
   \<and> log_prob (prior misassembled_jim) [(''a'', 6), (''b'', 5)] = Inr (- 11)
   \<and> likelihood_transforms misassembled_jim = [] @ ScaleTransform ([''c''], [''d'']) 2 # []
   \<and> forward_loop [] [(''a'', 6), (''b'', 5)] = Inr [(''a'', 6), (''b'', 5)]
   \<and> posterior misassembled_jim [6, 5] None = Inl MissingParameterError"
proof -
  let ?f = "\<lambda>xs::real list. (if (2::real) = 0 then Inl DomainError
             else Inr (map (\<lambda>x. 2 * x) xs, real (length xs) * ln \<bar>2\<bar>)) :: error + real list \<times> real"
  let ?g = "\<lambda>ys::real list. (if (2::real) = 0 then Inl DomainError
             else Inr (map (\<lambda>y. y / 2) ys, - (real (length ys) * ln \<bar>2\<bar>)))
               :: error + real list \<times> real"
  let ?cd = "([''c''], [''d''])"
  let ?ab = "([''a''], [''b''])"
  let ?x = "[(''a'', 6::real), (''b'', 5)]"
  let ?y = "[(''c'', 3::real)]"
  have Tcd: "ScaleTransform ?cd 2 = make_transform ?cd ?f ?g"
    by (simp only: ScaleTransform_def)
  have Tab: "ScaleTransform ?ab 2 = make_transform ?ab ?f ?g"
    by (simp only: ScaleTransform_def)
  have m1: "\<not> list_all (\<lambda>n. map_of ?x n \<noteq> None) (fst ?cd)" by simp
  have m2: "\<not> list_all (\<lambda>n. map_of ?y n \<noteq> None) (snd ?ab)" by simp
  have sts: "sample_transforms chain_jim
      = [] @ make_transform ?ab ?f ?g # [OffsetTransform ([''b''], [''c'']) 1]"
    by (simp add: chain_jim_def Jim_init_def ScaleTransform_def)
  have il: "inverse_loop [] (add_name chain_jim [3]) 0 = Inr (?y, 0)"
    by (simp add: example_defs)
  have bl: "backward_loop [] (add_name chain_jim [3]) = Inr ?y"
    by (simp add: example_defs)
  have il2: "inverse_loop (sample_transforms misassembled_jim) (add_name misassembled_jim [6, 5]) 0
      = Inr (?x, 0)"
    by (simp add: example_defs)
  have lp: "log_prob (prior misassembled_jim) ?x = Inr (- 11)"
    by (simp add: example_defs)
  have lts: "likelihood_transforms misassembled_jim = [] @ make_transform ?cd ?f ?g # []"
    by (simp add: misassembled_jim_def Jim_init_def ScaleTransform_def)
  have fl: "forward_loop [] ?x = Inr ?x" by simp
  note t1 = missing_parameter_surfaces [where x = ?x and nm = ?cd and f = ?f and g = ?g
      and J = misassembled_jim and ts = "[]" and us = "[]" and params = "[6, 5]" and y = ?x
      and j = 0 and lp = "- 11" and z = ?x and data = None]
  note t2 = missing_parameter_surfaces [where x = ?y and nm = ?ab and f = ?f and g = ?g
      and J = chain_jim and ts = "[]" and us = "[OffsetTransform ([''b''], [''c'']) 1]"
      and params = "[3]" and y = ?y and j = 0 and data = None and row = "[3]" and rest = "[]"]
  from t1 m1 have a: "transform (ScaleTransform ?cd 2) ?x = Inl MissingParameterError"
    "forward (ScaleTransform ?cd 2) ?x = Inl MissingParameterError"
    unfolding Tcd by blast+
  from t2 m2 have b: "inverse_tr (ScaleTransform ?ab 2) ?y = Inl MissingParameterError"
    "backward (ScaleTransform ?ab 2) ?y = Inl MissingParameterError"
    unfolding Tab by blast+
  from t2 sts il m2 have c: "posterior chain_jim [3] None = Inl MissingParameterError"
    by blast
  from t1 il2 lp lts fl m1 have d: "posterior misassembled_jim [6, 5] None = Inl MissingParameterError"
    by blast
  from t2 sts bl m2 have e: "get_samples chain_jim ([3] # []) = Inl MissingParameterError"
    by blast
  from m1 m2 a b c d e sts il bl il2 lp lts fl show ?thesis
    unfolding Tcd Tab by simp
qed

section \<open>Where the log-Jacobian of the posterior comes from\<close>

text \<open>
  Claim C9.  The value of \<^verbatim>\<open>Jim.posterior\<close> is the likelihood of the forward-transformed
  parameters, plus the prior log-probability, plus the sum of the log-Jacobians reported by
  the inverses of the sample transforms, and nothing else.  The likelihood transforms enter
  through \<^verbatim>\<open>forward\<close> alone: two objects whose likelihood transforms have the same
  \<^verbatim>\<open>forward\<close> maps, whatever log-Jacobians these transforms report, have the same posterior.
\<close>

theorem posterior_jacobian_from_sample_transforms_only:
  "posterior J params data =
     (case inverse_jacobians (sample_transforms J) (add_name J params) of
        Inl e \<Rightarrow> Inl e
      | Inr (x, js) \<Rightarrow>
          (case log_prob (prior J) x of
             Inl e \<Rightarrow> Inl e
           | Inr lp \<Rightarrow>
               (case forward_loop (likelihood_transforms J) x of
                  Inl e \<Rightarrow> Inl e
                | Inr x' \<Rightarrow>
                    (case evaluate (likelihood J) x' data of
                       Inl e \<Rightarrow> Inl e
                     | Inr l \<Rightarrow> Inr (l + (lp + sum_list js))))))
   \<and> (likelihood J' = likelihood J \<and> prior J' = prior J
       \<and> sample_transforms J' = sample_transforms J
       \<and> Jim.parameter_names J' = Jim.parameter_names J
       \<and> map forward (likelihood_transforms J') = map forward (likelihood_transforms J)
      \<longrightarrow> posterior J' params data = posterior J params data)"
proof (intro conjI impI)
  show "posterior J params data =
     (case inverse_jacobians (sample_transforms J) (add_name J params) of
        Inl e \<Rightarrow> Inl e
      | Inr (x, js) \<Rightarrow>
          (case log_prob (prior J) x of
             Inl e \<Rightarrow> Inl e
           | Inr lp \<Rightarrow>
               (case forward_loop (likelihood_transforms J) x of
                  Inl e \<Rightarrow> Inl e
                | Inr x' \<Rightarrow>
                    (case evaluate (likelihood J) x' data of
                       Inl e \<Rightarrow> Inl e
                     | Inr l \<Rightarrow> Inr (l + (lp + sum_list js))))))"
    by (simp add: posterior_def inverse_loop_jacobians split: sum.splits prod.splits)
next
  assume same: "likelihood J' = likelihood J \<and> prior J' = prior J
       \<and> sample_transforms J' = sample_transforms J
       \<and> Jim.parameter_names J' = Jim.parameter_names J
       \<and> map forward (likelihood_transforms J') = map forward (likelihood_transforms J)"
  then have "map forward (likelihood_transforms J') = map forward (likelihood_transforms J)"
    by blast
  then have fw: "\<And>x. forward_loop (likelihood_transforms J') x
      = forward_loop (likelihood_transforms J) x"
    by (rule forward_loop_cong)
  from same have an: "add_name J' params = add_name J params"
    by (simp add: add_name_def)
  from same have eqs: "likelihood J' = likelihood J" "prior J' = prior J"
      "sample_transforms J' = sample_transforms J"
    by simp_all
  show "posterior J' params data = posterior J params data"
    unfolding posterior_def an fw eqs by (rule refl)
qed

theorem posterior_jacobian_from_sample_transforms_only_witness:
  "map forward (likelihood_transforms example_jim_other_jacobian)
     = map forward (likelihood_transforms example_jim)
   \<and> transform (hd (likelihood_transforms example_jim_other_jacobian)) [(''a'', 3), (''b'', 4)]
       = Inr ([(''a'', 3), (''b'', 4)], 42)
   \<and> transform (hd (likelihood_transforms example_jim)) [(''a'', 3), (''b'', 4)]
       = Inr ([(''a'', 3), (''b_tripled'', 12)], ln 3)
   \<and> inverse_jacobians (sample_transforms example_jim) (add_name example_jim [6, 5])
       = Inr ([(''a'', 3), (''b'', 4)], [- ln 2, 0])
   \<and> posterior example_jim [6, 5] None = Inr (15 + (- 7 + sum_list [- ln 2, 0]))
   \<and> posterior example_jim_other_jacobian [6, 5] None = posterior example_jim [6, 5] None"
proof -
  have same: "likelihood example_jim_other_jacobian = likelihood example_jim
      \<and> prior example_jim_other_jacobian = prior example_jim
      \<and> sample_transforms example_jim_other_jacobian = sample_transforms example_jim
      \<and> Jim.parameter_names example_jim_other_jacobian = Jim.parameter_names example_jim
      \<and> map forward (likelihood_transforms example_jim_other_jacobian)
          = map forward (likelihood_transforms example_jim)"
    by (simp add: example_jim_other_jacobian_def example_jim_def Jim_init_def
        ScaleTransform_def make_transform_def)
  have t1: "transform (hd (likelihood_transforms example_jim_other_jacobian))
      [(''a'', 3), (''b'', 4)] = Inr ([(''a'', 3), (''b'', 4)], 42)"
    by (simp add: example_jim_other_jacobian_def)
  have t2: "transform (hd (likelihood_transforms example_jim)) [(''a'', 3), (''b'', 4)]
      = Inr ([(''a'', 3), (''b_tripled'', 12)], ln 3)"
    by (simp add: example_defs)
  have js: "inverse_jacobians (sample_transforms example_jim) (add_name example_jim [6, 5])
      = Inr ([(''a'', 3), (''b'', 4)], [- ln 2, 0])"
    by (simp add: example_defs)
  have lp: "log_prob (prior example_jim) [(''a'', 3), (''b'', 4)] = Inr (- 7)"
    by (simp add: example_defs)
  have fw: "forward_loop (likelihood_transforms example_jim) [(''a'', 3), (''b'', 4)]
      = Inr [(''a'', 3), (''b_tripled'', 12)]"
    by (simp add: example_defs)
  have ev: "evaluate (likelihood example_jim) [(''a'', 3), (''b_tripled'', 12)] None = Inr 15"
    by (simp add: example_defs)
  note inst = posterior_jacobian_from_sample_transforms_only
      [of example_jim "[6, 5]" None example_jim_other_jacobian]
  have p: "posterior example_jim [6, 5] None = Inr (15 + (- 7 + sum_list [- ln 2, 0]))"
    by (subst inst [THEN conjunct1]) (simp only: js lp fw ev sum.case prod.case)
  from same
  have q: "posterior example_jim_other_jacobian [6, 5] None = posterior example_jim [6, 5] None"
    by (rule inst [THEN conjunct2, THEN mp])
  from same t1 t2 js p q show ?thesis by (intro conjI) (simp_all only:)
qed

section \<open>The objective of \<^verbatim>\<open>maximize_likelihood\<close>\<close>

text \<open>Whenever there is a parameter and the prior returns a sample for it, the first call
  of \<^verbatim>\<open>maximize_likelihood\<close> raises, whatever the optimizer and the bounds.\<close>

lemma maximize_likelihood_raises:
  assumes "Jim.parameter_names J \<noteq> []" and "sample (prior J) seed set_nwalkers \<noteq> []"
  shows "maximize_likelihood J optimizer bounds set_nwalkers n_loops seed = Inl TypeError"
proof -
  obtain n ns where names: "Jim.parameter_names J = n # ns"
    using assms(1) by (cases "Jim.parameter_names J") auto
  obtain k v kvs where smp: "sample (prior J) seed set_nwalkers = (k, v) # kvs"
    using assms(2) by (cases "sample (prior J) seed set_nwalkers") auto
  have "fold (\<lambda>(k, v). AList.update k v) ps acc \<noteq> []" if "acc \<noteq> []"
    for ps :: "(string \<times> string) list" and acc
    using that
  proof (induction ps arbitrary: acc)
    case Nil
    then show ?case by simp
  next
    case (Cons p ps)
    obtain a b where p: "p = (a, b)" by (cases p)
    from Cons.prems have "AList.update a b acc \<noteq> []" by (cases acc) auto
    from Cons.IH [OF this] p show ?case by simp
  qed
  then have "add_name J (map fst (sample (prior J) seed set_nwalkers)) \<noteq> []"
    by (simp add: add_name_def dict_zip_def names smp)
  then show ?thesis
    by (simp add: maximize_likelihood_def posterior_dict_def)
qed

text \<open>
  Claim C10.  \<^verbatim>\<open>Jim.maximize_likelihood\<close> should return the point the optimizer finds for
  the negative of the full posterior.  The objective it builds is that negative: at
  \<^verbatim>\<open>[10, 10]\<close> it is minus the sum of likelihood 32, prior log-probability \<open>- 14\<close> and
  log-Jacobian \<open>- ln 2\<close>, and the optimizer run on it over the bounds returns \<^verbatim>\<open>[10, 10]\<close>.
  But before the optimizer is built the method calls the objective on what
  \<^verbatim>\<open>self.prior.sample\<close> returned, a dictionary of named arrays, which \<^verbatim>\<open>Jim.sample\<close>
  converts to an array first and this method does not; \<^verbatim>\<open>add_name\<close> then pairs the
  parameter names with the keys of that dictionary, the call raises, and
  \<^verbatim>\<open>maximize_likelihood\<close> returns no point.
\<close>

theorem maximize_likelihood_first_call_raises:
  "map fst (sample (prior example_jim) 92348 100) = [''a'', ''b'']
   \<and> add_name example_jim (map fst (sample (prior example_jim) 92348 100))
       = [(''a_scaled'', ''a''), (''b_offset'', ''b'')]
   \<and> maximize_likelihood example_jim corner_optimizer [(0, 10), (0, 10)] 100 2000 92348
       = Inl TypeError
   \<and> negative_posterior example_jim [10, 10] = Inr (- (32 + (- 14 + - ln 2)))
   \<and> corner_optimizer (n_dim (prior example_jim)) (vmap (negative_posterior example_jim))
         [(0, 10), (0, 10)] 2000
       = Inr ([10, 10], - (32 + (- 14 + - ln 2)))"
  by (simp add: example_defs maximize_likelihood_def posterior_dict_def corner_optimizer_def
      negative_posterior_def posterior_def)

end
